theory Spec2Isabelle
  imports Main "HOL-Library.Word"
begin

unbundle bit_operations_syntax

section \<open>Machine types and constants of the driver\<close>

text \<open>
  The driver is C++ for a 32-bit target: \<open>uint8_t\<close>, \<open>uint16_t\<close> and \<open>uint32_t\<close> are
  words of that width, and \<open>int\<close> is 32 bits wide.  Operands narrower than \<open>int\<close> are
  promoted before every arithmetic or bitwise operator; the model writes each promotion as
  \<open>ucast\<close> to the width the C++ expression is computed in and each implicit narrowing
  (an assignment to a narrower field, an argument passed as \<open>uint8_t\<close>) as \<open>ucast\<close> back.
\<close>

type_synonym uint8_t = "8 word"
type_synonym uint16_t = "16 word"
type_synonym uint32_t = "32 word"
type_synonym int_t = "32 word"

definition LO_NIBBLE :: "int_t \<Rightarrow> int_t" where
  "LO_NIBBLE x = drop_bit 0 x AND 0x0f"

definition HI_NIBBLE :: "int_t \<Rightarrow> int_t" where
  "HI_NIBBLE x = drop_bit 4 x AND 0x0f"

abbreviation (input) LCD_CLEAR_DISPLAY :: uint8_t where "LCD_CLEAR_DISPLAY \<equiv> 0x01"
abbreviation (input) LCD_SET_CURSOR_HOME :: uint8_t where "LCD_SET_CURSOR_HOME \<equiv> 0x02"

abbreviation (input) LCD_SET_ENTRY_MODE :: uint8_t where "LCD_SET_ENTRY_MODE \<equiv> 0x04"
abbreviation (input) LCD_CURSOR_MOVE :: uint8_t where "LCD_CURSOR_MOVE \<equiv> 0x00"
abbreviation (input) LCD_DISPLAY_MOVE :: uint8_t where "LCD_DISPLAY_MOVE \<equiv> 0x01"
abbreviation (input) LCD_CURSOR_POS_DEC :: uint8_t where "LCD_CURSOR_POS_DEC \<equiv> 0x00"
abbreviation (input) LCD_CURSOR_POS_INC :: uint8_t where "LCD_CURSOR_POS_INC \<equiv> 0x02"

abbreviation (input) LCD_CONTROL_DISPLAY :: uint8_t where "LCD_CONTROL_DISPLAY \<equiv> 0x08"
abbreviation (input) LCD_BLINK_DISABLE :: uint8_t where "LCD_BLINK_DISABLE \<equiv> 0x00"
abbreviation (input) LCD_BLINK_ENABLE :: uint8_t where "LCD_BLINK_ENABLE \<equiv> 0x01"
abbreviation (input) LCD_CURSOR_DISABLE :: uint8_t where "LCD_CURSOR_DISABLE \<equiv> 0x00"
abbreviation (input) LCD_CURSOR_ENABLE :: uint8_t where "LCD_CURSOR_ENABLE \<equiv> 0x02"
abbreviation (input) LCD_DISPLAY_ENABLE :: uint8_t where "LCD_DISPLAY_ENABLE \<equiv> 0x04"

abbreviation (input) LCD_SHIFT_CURSOR :: uint8_t where "LCD_SHIFT_CURSOR \<equiv> 0x10"
abbreviation (input) LCD_CURSOR_MOVE_LT :: uint8_t where "LCD_CURSOR_MOVE_LT \<equiv> 0x00"
abbreviation (input) LCD_CURSOR_MOVE_RT :: uint8_t where "LCD_CURSOR_MOVE_RT \<equiv> 0x04"
abbreviation (input) LCD_DISPLAY_MOVE_LT :: uint8_t where "LCD_DISPLAY_MOVE_LT \<equiv> 0x08"
abbreviation (input) LCD_DISPLAY_MOVE_RT :: uint8_t where "LCD_DISPLAY_MOVE_RT \<equiv> 0x0C"

abbreviation (input) LCD_SET_FUNCTION :: uint8_t where "LCD_SET_FUNCTION \<equiv> 0x20"
abbreviation (input) LCD_DOT_COUNT_8 :: uint8_t where "LCD_DOT_COUNT_8 \<equiv> 0x00"
abbreviation (input) LCD_LINE_COUNT_2 :: uint8_t where "LCD_LINE_COUNT_2 \<equiv> 0x08"
abbreviation (input) LCD_BUS_SIZE_4 :: uint8_t where "LCD_BUS_SIZE_4 \<equiv> 0x00"
abbreviation (input) LCD_BUS_SIZE_8 :: uint8_t where "LCD_BUS_SIZE_8 \<equiv> 0x10"

abbreviation (input) LCD_SET_CGRAMADDR :: uint8_t where "LCD_SET_CGRAMADDR \<equiv> 0x40"
abbreviation (input) LCD_SET_DDRAMADDR :: uint8_t where "LCD_SET_DDRAMADDR \<equiv> 0x80"

abbreviation (input) LCD_ORIG_ADDR_FIRST :: uint8_t where "LCD_ORIG_ADDR_FIRST \<equiv> 0x00"
abbreviation (input) LCD_ORIG_ADDR_SECOND :: uint8_t where "LCD_ORIG_ADDR_SECOND \<equiv> 0x40"
abbreviation (input) LCD_LINE_SIZE :: uint8_t where "LCD_LINE_SIZE \<equiv> 0x28"

abbreviation (input) RS_ID :: nat where "RS_ID \<equiv> 0"
abbreviation (input) RW_ID :: nat where "RW_ID \<equiv> 1"
abbreviation (input) EN_ID :: nat where "EN_ID \<equiv> 2"
abbreviation (input) BACKLIGHT_ID :: nat where "BACKLIGHT_ID \<equiv> 3"

abbreviation (input) DEFAULT_I2C_ADDR :: uint8_t where
  "DEFAULT_I2C_ADDR \<equiv> ucast (push_bit 1 (0x27 :: int_t))"

text \<open>An operand of type \<open>uint8_t\<close> or \<open>uint16_t\<close> promoted to \<open>int\<close>.\<close>

abbreviation (input) promote8 :: "uint8_t \<Rightarrow> int_t" where "promote8 \<equiv> ucast"
abbreviation (input) promote16 :: "uint16_t \<Rightarrow> int_t" where "promote16 \<equiv> ucast"

section \<open>The bus interface\<close>

text \<open>
  \<open>I2CInterface\<close> holds the device address and the backlight mask.  Its \<open>I2C\<close> member is
  the transport; the model keeps what the transport was asked to send: \<open>wire\<close> lists, oldest
  first, the byte of every \<open>con.write(addr, ptr, 1)\<close>.  The blocking sleeps between writes
  have no effect on the driver's state and are not part of the model.
\<close>

record I2CInterface =
  addr :: uint8_t
  backlightMask :: uint8_t
  wire :: "uint8_t list"

definition I2CInterface_new :: "uint8_t \<Rightarrow> I2CInterface" where
  "I2CInterface_new a = \<lparr>addr = a, backlightMask = 0, wire = []\<rparr>"

definition i2c_write :: "uint8_t \<Rightarrow> I2CInterface \<Rightarrow> I2CInterface" where
  "i2c_write b c = c\<lparr>wire := wire c @ [b]\<rparr>"

text \<open>
  The body shared by \<open>send_byte\<close> and \<open>send_nibble\<close>: \<open>pack.result\<close> is computed in
  \<open>int\<close> and narrowed to \<open>uint8_t\<close>, the three-byte buffer holds it with the enable
  strobe low, high, low, and the inner loop writes the buffer byte by byte.
\<close>

definition pack_result :: "int_t \<Rightarrow> uint8_t \<Rightarrow> uint8_t \<Rightarrow> uint8_t" where
  "pack_result nibble isData bl =
     ucast (push_bit 4 nibble OR push_bit RS_ID (promote8 isData) OR promote8 bl)"

definition pack_buf :: "uint8_t \<Rightarrow> uint8_t list" where
  "pack_buf result =
     [result, ucast (promote8 result OR push_bit EN_ID 1), result]"

definition write_buf :: "uint8_t list \<Rightarrow> I2CInterface \<Rightarrow> I2CInterface" where
  "write_buf buf c = foldl (\<lambda>c' b. i2c_write b c') c buf"

text \<open>
  \<open>send_byte\<close>: the outer loop runs with the counter \<open>_\<close> at 0 and at 4 and shifts the
  byte right by \<open>4 ^ _\<close> (exclusive or), that is by 4 and then by 0.
\<close>

function send_byte_loop :: "nat \<Rightarrow> uint8_t \<Rightarrow> uint8_t \<Rightarrow> I2CInterface \<Rightarrow> I2CInterface" where
  "send_byte_loop u byte isData c =
     (if u \<le> 4
      then let nibble = drop_bit (4 XOR u) (promote8 byte) AND 0xf;
               result = pack_result nibble isData (backlightMask c)
           in send_byte_loop (u + 4) byte isData (write_buf (pack_buf result) c)
      else c)"
  by pat_completeness auto
termination
  by (relation "measure (\<lambda>(u, byte, isData, c). 5 - u)") auto

definition send_byte :: "uint8_t \<Rightarrow> uint8_t \<Rightarrow> I2CInterface \<Rightarrow> I2CInterface" where
  "send_byte byte isData c = send_byte_loop 0 byte isData c"

definition send_nibble :: "uint8_t \<Rightarrow> uint8_t \<Rightarrow> I2CInterface \<Rightarrow> I2CInterface" where
  "send_nibble nibble isData c =
     write_buf (pack_buf (pack_result (promote8 nibble) isData (backlightMask c))) c"

definition con_enable_backlight :: "I2CInterface \<Rightarrow> I2CInterface" where
  "con_enable_backlight c =
     (let c' = c\<lparr>backlightMask := ucast (push_bit BACKLIGHT_ID (1 :: int_t))\<rparr>
      in i2c_write (backlightMask c') c')"

definition con_disable_backlight :: "I2CInterface \<Rightarrow> I2CInterface" where
  "con_disable_backlight c =
     (let c' = c\<lparr>backlightMask :=
                  ucast (promote8 (backlightMask c) AND NOT (push_bit BACKLIGHT_ID 1))\<rparr>
      in i2c_write (backlightMask c') c')"

definition con_toggle_backlight :: "I2CInterface \<Rightarrow> I2CInterface" where
  "con_toggle_backlight c =
     (let c' = c\<lparr>backlightMask :=
                  ucast (promote8 (backlightMask c) XOR push_bit BACKLIGHT_ID 1)\<rparr>
      in i2c_write (backlightMask c') c')"

definition con_is_backlight_on :: "I2CInterface \<Rightarrow> bool" where
  "con_is_backlight_on c = (backlightMask c \<noteq> 0)"

section \<open>The driver\<close>

datatype EntryMode = UNINITIALIZED | CURSOR_INC | CURSOR_DEC | DISPLAY_DEC | DISPLAY_INC

record HD44780LCD =
  con :: I2CInterface
  cursorLoc :: uint32_t
  displayState :: uint16_t
  cursorMovement :: uint16_t

text \<open>
  The constructor: the bus interface at the default address, the cursor at the origin of
  the first line, and both masks at their member initialiser 0.
\<close>

definition HD44780LCD_new :: HD44780LCD where
  "HD44780LCD_new =
     \<lparr>con = I2CInterface_new DEFAULT_I2C_ADDR,
      cursorLoc = promote8 LCD_ORIG_ADDR_FIRST,
      displayState = 0,
      cursorMovement = 0\<rparr>"

text \<open>\<open>con.send_byte(b, isData)\<close> called on the driver's bus interface.\<close>

definition con_send_byte :: "uint8_t \<Rightarrow> uint8_t \<Rightarrow> HD44780LCD \<Rightarrow> HD44780LCD" where
  "con_send_byte b isData s = s\<lparr>con := send_byte b isData (con s)\<rparr>"

definition con_send_nibble :: "uint8_t \<Rightarrow> uint8_t \<Rightarrow> HD44780LCD \<Rightarrow> HD44780LCD" where
  "con_send_nibble n isData s = s\<lparr>con := send_nibble n isData (con s)\<rparr>"

subsection \<open>Private methods\<close>

definition update_display_cursor_pos :: "HD44780LCD \<Rightarrow> HD44780LCD" where
  "update_display_cursor_pos s =
     con_send_byte (ucast (promote8 LCD_SET_DDRAMADDR OR cursorLoc s)) 0 s"

definition inc_cursor_loc :: "HD44780LCD \<Rightarrow> HD44780LCD" where
  "inc_cursor_loc s =
     (let s1 = s\<lparr>cursorLoc := cursorLoc s + 1\<rparr>
      in if cursorLoc s1 \<ge> promote8 LCD_ORIG_ADDR_SECOND + promote8 LCD_LINE_SIZE
         then s1\<lparr>cursorLoc := promote8 LCD_ORIG_ADDR_FIRST\<rparr>
         else if cursorLoc s1 < promote8 LCD_ORIG_ADDR_SECOND
                 \<and> cursorLoc s1 \<ge> promote8 LCD_ORIG_ADDR_FIRST + promote8 LCD_LINE_SIZE
         then s1\<lparr>cursorLoc := promote8 LCD_ORIG_ADDR_SECOND\<rparr>
         else s1)"

definition dec_cursor_loc :: "HD44780LCD \<Rightarrow> HD44780LCD" where
  "dec_cursor_loc s =
     (if cursorLoc s = promote8 LCD_ORIG_ADDR_FIRST
      then s\<lparr>cursorLoc := promote8 LCD_ORIG_ADDR_SECOND + promote8 LCD_LINE_SIZE - 1\<rparr>
      else if cursorLoc s = promote8 LCD_ORIG_ADDR_SECOND
      then s\<lparr>cursorLoc := promote8 LCD_ORIG_ADDR_FIRST + promote8 LCD_LINE_SIZE - 1\<rparr>
      else s\<lparr>cursorLoc := cursorLoc s - 1\<rparr>)"

subsection \<open>Public methods\<close>

definition initialize :: "HD44780LCD \<Rightarrow> HD44780LCD" where
  "initialize s =
     (let s = s\<lparr>displayState :=
                  ucast (promote8 LCD_DISPLAY_ENABLE OR promote8 LCD_CURSOR_DISABLE
                         OR promote8 LCD_BLINK_DISABLE)\<rparr>;
          s = s\<lparr>cursorMovement :=
                  ucast (promote8 LCD_CURSOR_MOVE OR promote8 LCD_CURSOR_POS_INC)\<rparr>;
          s = ((con_send_nibble
                  (ucast (HI_NIBBLE (promote8 LCD_SET_FUNCTION OR promote8 LCD_BUS_SIZE_8))) 0)
               ^^ 3) s;
          s = con_send_nibble
                (ucast (HI_NIBBLE (promote8 LCD_SET_FUNCTION OR promote8 LCD_BUS_SIZE_4))) 0 s;
          s = con_send_byte
                (ucast (promote8 LCD_SET_FUNCTION OR promote8 LCD_BUS_SIZE_4
                        OR promote8 LCD_DOT_COUNT_8 OR promote8 LCD_LINE_COUNT_2)) 0 s;
          s = con_send_byte LCD_CLEAR_DISPLAY 0 s;
          s = con_send_byte LCD_SET_CURSOR_HOME 0 s;
          s = con_send_byte (ucast (promote8 LCD_CONTROL_DISPLAY OR promote16 (displayState s))) 0 s
      in con_send_byte (ucast (promote8 LCD_SET_ENTRY_MODE OR promote16 (cursorMovement s))) 0 s)"

definition send_data :: "uint8_t \<Rightarrow> HD44780LCD \<Rightarrow> HD44780LCD" where
  "send_data byte s =
     (let s = con_send_byte byte 1 s
      in if promote16 (cursorMovement s) AND promote8 LCD_CURSOR_POS_INC \<noteq> 0
         then inc_cursor_loc s
         else dec_cursor_loc s)"

text \<open>\<open>send_buffer(buf, len)\<close>: the list is the \<open>len\<close> bytes at \<open>buf\<close>, sent in order.\<close>

fun send_buffer :: "uint8_t list \<Rightarrow> HD44780LCD \<Rightarrow> HD44780LCD" where
  "send_buffer [] s = s"
| "send_buffer (b # buf) s = send_buffer buf (send_data b s)"

definition get_cursor_row :: "HD44780LCD \<Rightarrow> uint32_t" where
  "get_cursor_row s = (if cursorLoc s \<ge> promote8 LCD_ORIG_ADDR_SECOND then 1 else 0)"

definition get_cursor_col :: "HD44780LCD \<Rightarrow> uint32_t" where
  "get_cursor_col s =
     cursorLoc s - (if cursorLoc s \<ge> promote8 LCD_ORIG_ADDR_SECOND
                    then promote8 LCD_ORIG_ADDR_SECOND
                    else promote8 LCD_ORIG_ADDR_FIRST)"

definition set_cursor_pos :: "uint32_t \<Rightarrow> uint32_t \<Rightarrow> HD44780LCD \<Rightarrow> HD44780LCD" where
  "set_cursor_pos r c s =
     (if r > 1 \<or> c > promote8 LCD_LINE_SIZE
      then s
      else update_display_cursor_pos
             (s\<lparr>cursorLoc := (if r \<noteq> 0 then promote8 LCD_ORIG_ADDR_SECOND
                               else promote8 LCD_ORIG_ADDR_FIRST) + c\<rparr>))"

text \<open>
  \<open>create_custom_char(loc, glyph)\<close> reads \<open>glyph[0]\<close> to \<open>glyph[7]\<close>; the parameter is
  declared \<open>const uint8_t glyph[8]\<close>.  The list is the array behind the pointer, and an
  array of fewer than 8 bytes is outside what the method may be given.
\<close>

definition create_custom_char :: "uint32_t \<Rightarrow> uint8_t list \<Rightarrow> HD44780LCD \<Rightarrow> HD44780LCD" where
  "create_custom_char loc glyph s =
     (let s = con_send_byte (ucast (promote8 LCD_SET_CGRAMADDR OR push_bit 3 loc)) 0 s;
          s = foldl (\<lambda>s' i. con_send_byte (glyph ! i) 1 s') s [0..<8];
          r = get_cursor_row s;
          c = get_cursor_col s
      in set_cursor_pos r c s)"

definition enable_backlight :: "HD44780LCD \<Rightarrow> HD44780LCD" where
  "enable_backlight s = s\<lparr>con := con_enable_backlight (con s)\<rparr>"

definition disable_backlight :: "HD44780LCD \<Rightarrow> HD44780LCD" where
  "disable_backlight s = s\<lparr>con := con_disable_backlight (con s)\<rparr>"

definition toggle_backlight :: "HD44780LCD \<Rightarrow> HD44780LCD" where
  "toggle_backlight s = s\<lparr>con := con_toggle_backlight (con s)\<rparr>"

definition is_backlight_on :: "HD44780LCD \<Rightarrow> bool" where
  "is_backlight_on s = con_is_backlight_on (con s)"

text \<open>The four entry-mode setters store the mask and send the entry-mode instruction.\<close>

definition push_entry_mode :: "HD44780LCD \<Rightarrow> HD44780LCD" where
  "push_entry_mode s =
     con_send_byte (ucast (promote8 LCD_SET_ENTRY_MODE OR promote16 (cursorMovement s))) 0 s"

definition set_cursor_auto_dec :: "HD44780LCD \<Rightarrow> HD44780LCD" where
  "set_cursor_auto_dec s =
     push_entry_mode
       (s\<lparr>cursorMovement := ucast (promote8 LCD_CURSOR_POS_DEC OR promote8 LCD_CURSOR_MOVE)\<rparr>)"

definition set_cursor_auto_inc :: "HD44780LCD \<Rightarrow> HD44780LCD" where
  "set_cursor_auto_inc s =
     push_entry_mode
       (s\<lparr>cursorMovement := ucast (promote8 LCD_CURSOR_POS_INC OR promote8 LCD_CURSOR_MOVE)\<rparr>)"

definition set_display_auto_dec :: "HD44780LCD \<Rightarrow> HD44780LCD" where
  "set_display_auto_dec s =
     push_entry_mode
       (s\<lparr>cursorMovement := ucast (promote8 LCD_CURSOR_POS_INC OR promote8 LCD_DISPLAY_MOVE)\<rparr>)"

definition set_display_auto_inc :: "HD44780LCD \<Rightarrow> HD44780LCD" where
  "set_display_auto_inc s =
     push_entry_mode
       (s\<lparr>cursorMovement := ucast (promote8 LCD_CURSOR_POS_DEC OR promote8 LCD_DISPLAY_MOVE)\<rparr>)"

text \<open>The \<open>switch\<close> of \<open>get_entry_mode\<close>, its case labels in the source's order.\<close>

definition get_entry_mode :: "HD44780LCD \<Rightarrow> EntryMode" where
  "get_entry_mode s =
     (let m = promote16 (cursorMovement s)
      in if m = (promote8 LCD_CURSOR_MOVE OR promote8 LCD_CURSOR_POS_DEC) then CURSOR_DEC
         else if m = (promote8 LCD_CURSOR_MOVE OR promote8 LCD_CURSOR_POS_INC) then CURSOR_INC
         else if m = (promote8 LCD_DISPLAY_MOVE OR promote8 LCD_CURSOR_POS_INC) then DISPLAY_DEC
         else if m = (promote8 LCD_DISPLAY_MOVE OR promote8 LCD_CURSOR_POS_DEC) then DISPLAY_INC
         else CURSOR_INC)"

text \<open>
  The display-control methods update \<open>displayState\<close> (\<open>|=\<close>, \<open>&= ~\<close>, \<open>^=\<close>, computed in
  \<open>int\<close> and narrowed to the 16-bit field) and send the display-control instruction.
\<close>

definition push_display_state :: "HD44780LCD \<Rightarrow> HD44780LCD" where
  "push_display_state s =
     con_send_byte (ucast (promote8 LCD_CONTROL_DISPLAY OR promote16 (displayState s))) 0 s"

definition clear_display :: "HD44780LCD \<Rightarrow> HD44780LCD" where
  "clear_display s = con_send_byte LCD_CLEAR_DISPLAY 0 s"

definition enable_display :: "HD44780LCD \<Rightarrow> HD44780LCD" where
  "enable_display s =
     push_display_state
       (s\<lparr>displayState := ucast (promote16 (displayState s) OR promote8 LCD_DISPLAY_ENABLE)\<rparr>)"

definition disable_display :: "HD44780LCD \<Rightarrow> HD44780LCD" where
  "disable_display s =
     push_display_state
       (s\<lparr>displayState :=
            ucast (promote16 (displayState s) AND NOT (promote8 LCD_DISPLAY_ENABLE))\<rparr>)"

definition toggle_display :: "HD44780LCD \<Rightarrow> HD44780LCD" where
  "toggle_display s =
     push_display_state
       (s\<lparr>displayState := ucast (promote16 (displayState s) XOR promote8 LCD_DISPLAY_ENABLE)\<rparr>)"

definition is_display_enabled :: "HD44780LCD \<Rightarrow> bool" where
  "is_display_enabled s = (displayState s \<noteq> 0)"

definition set_cursor_home :: "HD44780LCD \<Rightarrow> HD44780LCD" where
  "set_cursor_home s =
     con_send_byte LCD_SET_CURSOR_HOME 0 (s\<lparr>cursorLoc := promote8 LCD_ORIG_ADDR_FIRST\<rparr>)"

definition move_cursor_left :: "HD44780LCD \<Rightarrow> HD44780LCD" where
  "move_cursor_left s =
     dec_cursor_loc
       (con_send_byte (ucast (promote8 LCD_SHIFT_CURSOR OR promote8 LCD_CURSOR_MOVE_LT)) 0 s)"

definition move_cursor_right :: "HD44780LCD \<Rightarrow> HD44780LCD" where
  "move_cursor_right s =
     inc_cursor_loc
       (con_send_byte (ucast (promote8 LCD_SHIFT_CURSOR OR promote8 LCD_CURSOR_MOVE_RT)) 0 s)"

definition enable_cursor_display :: "HD44780LCD \<Rightarrow> HD44780LCD" where
  "enable_cursor_display s =
     push_display_state
       (s\<lparr>displayState := ucast (promote16 (displayState s) OR promote8 LCD_CURSOR_ENABLE)\<rparr>)"

definition disable_cursor_display :: "HD44780LCD \<Rightarrow> HD44780LCD" where
  "disable_cursor_display s =
     push_display_state
       (s\<lparr>displayState :=
            ucast (promote16 (displayState s) AND NOT (promote8 LCD_CURSOR_ENABLE))\<rparr>)"

definition toggle_cursor_display :: "HD44780LCD \<Rightarrow> HD44780LCD" where
  "toggle_cursor_display s =
     push_display_state
       (s\<lparr>displayState := ucast (promote16 (displayState s) XOR promote8 LCD_CURSOR_ENABLE)\<rparr>)"

definition is_cursor_displayed :: "HD44780LCD \<Rightarrow> bool" where
  "is_cursor_displayed s = (promote16 (displayState s) AND promote8 LCD_CURSOR_ENABLE \<noteq> 0)"

definition enable_blinking_cursor :: "HD44780LCD \<Rightarrow> HD44780LCD" where
  "enable_blinking_cursor s =
     push_display_state
       (s\<lparr>displayState := ucast (promote16 (displayState s) OR promote8 LCD_BLINK_ENABLE)\<rparr>)"

definition disable_blinking_cursor :: "HD44780LCD \<Rightarrow> HD44780LCD" where
  "disable_blinking_cursor s =
     push_display_state
       (s\<lparr>displayState :=
            ucast (promote16 (displayState s) AND NOT (promote8 LCD_BLINK_ENABLE))\<rparr>)"

definition toggle_blinking_cursor :: "HD44780LCD \<Rightarrow> HD44780LCD" where
  "toggle_blinking_cursor s =
     push_display_state
       (s\<lparr>displayState := ucast (promote16 (displayState s) XOR promote8 LCD_BLINK_ENABLE)\<rparr>)"

definition is_blinking_cursor_displayed :: "HD44780LCD \<Rightarrow> bool" where
  "is_blinking_cursor_displayed s =
     (promote16 (displayState s) AND promote8 LCD_BLINK_ENABLE \<noteq> 0)"

definition scroll_display_left :: "HD44780LCD \<Rightarrow> HD44780LCD" where
  "scroll_display_left s =
     con_send_byte (ucast (promote8 LCD_SHIFT_CURSOR OR promote8 LCD_DISPLAY_MOVE_LT)) 0 s"

definition scroll_display_right :: "HD44780LCD \<Rightarrow> HD44780LCD" where
  "scroll_display_right s =
     con_send_byte (ucast (promote8 LCD_SHIFT_CURSOR OR promote8 LCD_DISPLAY_MOVE_RT)) 0 s"

definition get_stream :: "HD44780LCD \<Rightarrow> HD44780LCD" where
  "get_stream s = initialize s"

text \<open>
  \<open>_putc(int c)\<close> and \<open>_getc()\<close>, the methods inherited from \<open>Stream\<close>, with the value
  they return: \<open>'\n'\<close> is 10, \<open>'\r'\<close> is 13, every other \<open>c\<close> is narrowed to a byte
  and sent as data.
\<close>

definition putc :: "int_t \<Rightarrow> HD44780LCD \<Rightarrow> int_t \<times> HD44780LCD" where
  "putc c s =
     (let row = get_cursor_row s;
          col = get_cursor_col s
      in if c = 10 then (0, set_cursor_pos (row XOR 1) col s)
         else if c = 13 then (0, set_cursor_pos row 0 s)
         else (0, send_data (ucast c) s))"

definition getc :: "HD44780LCD \<Rightarrow> int_t \<times> HD44780LCD" where
  "getc s = (- 1, s)"

section \<open>The public interface as calls\<close>

text \<open>
  One constructor for each public method of the class, with the method's arguments, and
  the value a call returns.  \<open>invoke\<close> runs one call: a \<open>void\<close> method returns the state it
  leaves, a \<open>const\<close> method returns its value beside the state it was called in.
\<close>

datatype call =
    Initialize
  | Send_data uint8_t
  | Send_buffer "uint8_t list"
  | Create_custom_char uint32_t "uint8_t list"
  | Enable_backlight | Disable_backlight | Toggle_backlight | Is_backlight_on
  | Set_cursor_auto_dec | Set_cursor_auto_inc | Set_display_auto_dec | Set_display_auto_inc
  | Get_entry_mode
  | Clear_display
  | Enable_display | Disable_display | Toggle_display | Is_display_enabled
  | Set_cursor_home | Move_cursor_left | Move_cursor_right
  | Set_cursor_pos uint32_t uint32_t
  | Get_cursor_row | Get_cursor_col
  | Enable_cursor_display | Disable_cursor_display | Toggle_cursor_display
  | Is_cursor_displayed
  | Enable_blinking_cursor | Disable_blinking_cursor | Toggle_blinking_cursor
  | Is_blinking_cursor_displayed
  | Scroll_display_left | Scroll_display_right
  | Get_stream
  | Putc int_t
  | Getc

datatype retval =
    RVoid | RBool bool | RUInt32 uint32_t | RInt int_t | RMode EntryMode | RThis

fun invoke :: "call \<Rightarrow> HD44780LCD \<Rightarrow> retval \<times> HD44780LCD" where
  "invoke Initialize s = (RVoid, initialize s)"
| "invoke (Send_data b) s = (RVoid, send_data b s)"
| "invoke (Send_buffer buf) s = (RVoid, send_buffer buf s)"
| "invoke (Create_custom_char loc glyph) s = (RVoid, create_custom_char loc glyph s)"
| "invoke Enable_backlight s = (RVoid, enable_backlight s)"
| "invoke Disable_backlight s = (RVoid, disable_backlight s)"
| "invoke Toggle_backlight s = (RVoid, toggle_backlight s)"
| "invoke Is_backlight_on s = (RBool (is_backlight_on s), s)"
| "invoke Set_cursor_auto_dec s = (RVoid, set_cursor_auto_dec s)"
| "invoke Set_cursor_auto_inc s = (RVoid, set_cursor_auto_inc s)"
| "invoke Set_display_auto_dec s = (RVoid, set_display_auto_dec s)"
| "invoke Set_display_auto_inc s = (RVoid, set_display_auto_inc s)"
| "invoke Get_entry_mode s = (RMode (get_entry_mode s), s)"
| "invoke Clear_display s = (RVoid, clear_display s)"
| "invoke Enable_display s = (RVoid, enable_display s)"
| "invoke Disable_display s = (RVoid, disable_display s)"
| "invoke Toggle_display s = (RVoid, toggle_display s)"
| "invoke Is_display_enabled s = (RBool (is_display_enabled s), s)"
| "invoke Set_cursor_home s = (RVoid, set_cursor_home s)"
| "invoke Move_cursor_left s = (RVoid, move_cursor_left s)"
| "invoke Move_cursor_right s = (RVoid, move_cursor_right s)"
| "invoke (Set_cursor_pos r c) s = (RVoid, set_cursor_pos r c s)"
| "invoke Get_cursor_row s = (RUInt32 (get_cursor_row s), s)"
| "invoke Get_cursor_col s = (RUInt32 (get_cursor_col s), s)"
| "invoke Enable_cursor_display s = (RVoid, enable_cursor_display s)"
| "invoke Disable_cursor_display s = (RVoid, disable_cursor_display s)"
| "invoke Toggle_cursor_display s = (RVoid, toggle_cursor_display s)"
| "invoke Is_cursor_displayed s = (RBool (is_cursor_displayed s), s)"
| "invoke Enable_blinking_cursor s = (RVoid, enable_blinking_cursor s)"
| "invoke Disable_blinking_cursor s = (RVoid, disable_blinking_cursor s)"
| "invoke Toggle_blinking_cursor s = (RVoid, toggle_blinking_cursor s)"
| "invoke Is_blinking_cursor_displayed s = (RBool (is_blinking_cursor_displayed s), s)"
| "invoke Scroll_display_left s = (RVoid, scroll_display_left s)"
| "invoke Scroll_display_right s = (RVoid, scroll_display_right s)"
| "invoke Get_stream s = (RThis, get_stream s)"
| "invoke (Putc c) s = (case putc c s of (r, s') \<Rightarrow> (RInt r, s'))"
| "invoke Getc s = (case getc s of (r, s') \<Rightarrow> (RInt r, s'))"

text \<open>A call is well formed when the array it hands to \<open>create_custom_char\<close> has 8 bytes.\<close>

fun wf_call :: "call \<Rightarrow> bool" where
  "wf_call (Create_custom_char loc glyph) = (length glyph = 8)"
| "wf_call _ = True"

text \<open>The state after a sequence of calls, and the states the public interface can reach.\<close>

fun run :: "call list \<Rightarrow> HD44780LCD \<Rightarrow> HD44780LCD" where
  "run [] s = s"
| "run (c # cs) s = run cs (snd (invoke c s))"

inductive reachable :: "HD44780LCD \<Rightarrow> bool" where
  constructed: "reachable HD44780LCD_new"
| called: "reachable s \<Longrightarrow> wf_call c \<Longrightarrow> reachable (snd (invoke c s))"

section \<open>Auxiliary definitions\<close>

text \<open>
  The bytes one call of \<open>send_nibble\<close> and of \<open>send_byte\<close> puts on the wire, as a
  function of the arguments and the backlight mask.
\<close>

definition nibble_frames :: "int_t \<Rightarrow> uint8_t \<Rightarrow> uint8_t \<Rightarrow> uint8_t list" where
  "nibble_frames nibble isData bl = pack_buf (pack_result nibble isData bl)"

definition byte_frames :: "uint8_t \<Rightarrow> uint8_t \<Rightarrow> uint8_t \<Rightarrow> uint8_t list" where
  "byte_frames byte isData bl =
     nibble_frames (HI_NIBBLE (promote8 byte)) isData bl
     @ nibble_frames (LO_NIBBLE (promote8 byte)) isData bl"

text \<open>
  The wire frame as the specification words it: bits 7 to 4 carry the data nibble, bit 3
  the backlight, bit 2 the enable strobe, bit 1 (read/write) is fixed at 0, bit 0 is the
  register select.
\<close>

definition spec_phase :: "uint8_t \<Rightarrow> bool \<Rightarrow> bool \<Rightarrow> bool \<Rightarrow> uint8_t" where
  "spec_phase nibble backlight enable rs =
     push_bit 4 nibble
     OR (if backlight then push_bit 3 1 else 0)
     OR (if enable then push_bit 2 1 else 0)
     OR (if rs then push_bit 0 1 else 0)"

text \<open>
  The address ranges of the specification: row 0 is \<open>[0x00, 0x28)\<close>, row 1 is
  \<open>[0x40, 0x68)\<close>, and the gap between them is \<open>[0x28, 0x40)\<close>.
\<close>

definition in_row0 :: "uint32_t \<Rightarrow> bool" where
  "in_row0 a = (0x00 \<le> a \<and> a < 0x28)"

definition in_row1 :: "uint32_t \<Rightarrow> bool" where
  "in_row1 a = (0x40 \<le> a \<and> a < 0x68)"

definition in_gap :: "uint32_t \<Rightarrow> bool" where
  "in_gap a = (0x28 \<le> a \<and> a < 0x40)"

text \<open>
  What the code keeps: the cursor address stays within a row's range extended by the one
  address past its end, and the backlight mask is 0 or the backlight bit alone.
\<close>

definition loc_ok :: "uint32_t \<Rightarrow> bool" where
  "loc_ok a = (a \<le> 0x28 \<or> (0x40 \<le> a \<and> a \<le> 0x68))"

definition bl_ok :: "uint8_t \<Rightarrow> bool" where
  "bl_ok m = (m = 0 \<or> m = 8)"

section \<open>The bytes on the wire\<close>

lemma write_buf_wire: "write_buf buf c = c\<lparr>wire := wire c @ buf\<rparr>"
  by (induction buf arbitrary: c) (simp_all add: write_buf_def i2c_write_def)

lemma send_byte_frames:
  "send_byte byte isData c = c\<lparr>wire := wire c @ byte_frames byte isData (backlightMask c)\<rparr>"
  by (simp add: send_byte_def write_buf_wire byte_frames_def nibble_frames_def
      HI_NIBBLE_def LO_NIBBLE_def Let_def)

lemma send_nibble_frames:
  "send_nibble n isData c =
     c\<lparr>wire := wire c @ nibble_frames (promote8 n) isData (backlightMask c)\<rparr>"
  by (simp add: send_nibble_def write_buf_wire nibble_frames_def)

lemma con_send_byte_simps [simp]:
  "cursorLoc (con_send_byte b d s) = cursorLoc s"
  "displayState (con_send_byte b d s) = displayState s"
  "cursorMovement (con_send_byte b d s) = cursorMovement s"
  "backlightMask (con (con_send_byte b d s)) = backlightMask (con s)"
  "addr (con (con_send_byte b d s)) = addr (con s)"
  "wire (con (con_send_byte b d s)) = wire (con s) @ byte_frames b d (backlightMask (con s))"
  by (simp_all add: con_send_byte_def send_byte_frames)

lemma con_send_nibble_simps [simp]:
  "cursorLoc (con_send_nibble b d s) = cursorLoc s"
  "displayState (con_send_nibble b d s) = displayState s"
  "cursorMovement (con_send_nibble b d s) = cursorMovement s"
  "backlightMask (con (con_send_nibble b d s)) = backlightMask (con s)"
  "addr (con (con_send_nibble b d s)) = addr (con s)"
  "wire (con (con_send_nibble b d s)) =
     wire (con s) @ nibble_frames (promote8 b) d (backlightMask (con s))"
  by (simp_all add: con_send_nibble_def send_nibble_frames)

lemma less_8_cases: "n < 8 \<Longrightarrow> n \<in> {0, 1, 2, 3, 4, 5, 6, 7 :: nat}"
  by auto

lemma word8_eq_iff:
  "(a :: uint8_t) = b \<longleftrightarrow>
     bit a 0 = bit b 0 \<and> bit a 1 = bit b 1 \<and> bit a 2 = bit b 2 \<and> bit a 3 = bit b 3
     \<and> bit a 4 = bit b 4 \<and> bit a 5 = bit b 5 \<and> bit a 6 = bit b 6 \<and> bit a 7 = bit b 7"
proof
  assume "a = b"
  then show "bit a 0 = bit b 0 \<and> bit a 1 = bit b 1 \<and> bit a 2 = bit b 2 \<and> bit a 3 = bit b 3
     \<and> bit a 4 = bit b 4 \<and> bit a 5 = bit b 5 \<and> bit a 6 = bit b 6 \<and> bit a 7 = bit b 7"
    by simp
next
  assume h: "bit a 0 = bit b 0 \<and> bit a 1 = bit b 1 \<and> bit a 2 = bit b 2 \<and> bit a 3 = bit b 3
     \<and> bit a 4 = bit b 4 \<and> bit a 5 = bit b 5 \<and> bit a 6 = bit b 6 \<and> bit a 7 = bit b 7"
  show "a = b"
  proof (rule bit_word_eqI)
    fix n assume "n < LENGTH(8)"
    then have "n < 8" by simp
    then show "bit a n = bit b n"
      using h less_8_cases [of n] by auto
  qed
qed

lemma spec_phase_bits:
  "drop_bit 4 (spec_phase nibble backlight enable rs) = take_bit 4 nibble"
  "bit (spec_phase nibble backlight enable rs) 3 = backlight"
  "bit (spec_phase nibble backlight enable rs) 2 = enable"
  "bit (spec_phase nibble backlight enable rs) 1 = False"
  "bit (spec_phase nibble backlight enable rs) 0 = rs"
  by (simp_all add: word8_eq_iff spec_phase_def bit_simps)

lemma pack_result_nibbles:
  assumes "bl = 0 \<or> bl = 8" and "isData = 0 \<or> isData = 1"
  shows "nibble_frames (HI_NIBBLE (promote8 byte)) isData bl =
           [spec_phase (drop_bit 4 byte) (bl \<noteq> 0) False (isData = 1),
            spec_phase (drop_bit 4 byte) (bl \<noteq> 0) True (isData = 1),
            spec_phase (drop_bit 4 byte) (bl \<noteq> 0) False (isData = 1)]"
    and "nibble_frames (LO_NIBBLE (promote8 byte)) isData bl =
           [spec_phase (take_bit 4 byte) (bl \<noteq> 0) False (isData = 1),
            spec_phase (take_bit 4 byte) (bl \<noteq> 0) True (isData = 1),
            spec_phase (take_bit 4 byte) (bl \<noteq> 0) False (isData = 1)]"
  using assms
  by (auto simp add: nibble_frames_def pack_buf_def word8_eq_iff pack_result_def spec_phase_def
      HI_NIBBLE_def LO_NIBBLE_def bit_simps)

section \<open>What every method keeps\<close>

lemma inc_loc_ok: "loc_ok (cursorLoc s) \<Longrightarrow> loc_ok (cursorLoc (inc_cursor_loc s))"
  by (auto simp add: loc_ok_def inc_cursor_loc_def Let_def word_le_nat_alt word_less_nat_alt unat_word_ariths)

lemma dec_loc_ok: "loc_ok (cursorLoc s) \<Longrightarrow> loc_ok (cursorLoc (dec_cursor_loc s))"
  apply (auto simp add: loc_ok_def dec_cursor_loc_def Let_def)
  apply unat_arith+
  done


lemma update_display_cursor_pos_simps [simp]:
  "cursorLoc (update_display_cursor_pos s) = cursorLoc s"
  "displayState (update_display_cursor_pos s) = displayState s"
  "cursorMovement (update_display_cursor_pos s) = cursorMovement s"
  "backlightMask (con (update_display_cursor_pos s)) = backlightMask (con s)"
  by (simp_all add: update_display_cursor_pos_def)

lemma inc_dec_frame [simp]:
  "con (inc_cursor_loc s) = con s"
  "displayState (inc_cursor_loc s) = displayState s"
  "cursorMovement (inc_cursor_loc s) = cursorMovement s"
  "con (dec_cursor_loc s) = con s"
  "displayState (dec_cursor_loc s) = displayState s"
  "cursorMovement (dec_cursor_loc s) = cursorMovement s"
  by (simp_all add: inc_cursor_loc_def dec_cursor_loc_def Let_def)

lemma set_cursor_pos_rejects:
  "r > 1 \<or> c > 0x28 \<Longrightarrow> set_cursor_pos r c s = s"
  by (simp add: set_cursor_pos_def)

lemma set_cursor_pos_accepts:
  "r \<le> 1 \<Longrightarrow> c \<le> 0x28 \<Longrightarrow>
     set_cursor_pos r c s =
       update_display_cursor_pos (s\<lparr>cursorLoc := (if r \<noteq> 0 then 0x40 else 0x00) + c\<rparr>)"
  by (auto simp add: set_cursor_pos_def)

lemma set_cursor_pos_frame [simp]:
  "displayState (set_cursor_pos r c s) = displayState s"
  "cursorMovement (set_cursor_pos r c s) = cursorMovement s"
  "backlightMask (con (set_cursor_pos r c s)) = backlightMask (con s)"
  by (simp_all add: set_cursor_pos_def)

lemma set_cursor_pos_loc_ok:
  "loc_ok (cursorLoc s) \<Longrightarrow> loc_ok (cursorLoc (set_cursor_pos r c s))"
  by (auto simp add: set_cursor_pos_def loc_ok_def word_le_nat_alt word_less_nat_alt unat_word_ariths)

lemma send_data_frame [simp]:
  "displayState (send_data b s) = displayState s"
  "cursorMovement (send_data b s) = cursorMovement s"
  "backlightMask (con (send_data b s)) = backlightMask (con s)"
  by (simp_all add: send_data_def Let_def)

lemma send_data_loc_ok: "loc_ok (cursorLoc s) \<Longrightarrow> loc_ok (cursorLoc (send_data b s))"
  by (simp add: send_data_def Let_def inc_loc_ok dec_loc_ok)

lemma send_buffer_backlight [simp]:
  "backlightMask (con (send_buffer buf s)) = backlightMask (con s)"
  by (induction buf arbitrary: s) simp_all

lemma send_buffer_loc_ok: "loc_ok (cursorLoc s) \<Longrightarrow> loc_ok (cursorLoc (send_buffer buf s))"
  by (induction buf arbitrary: s) (simp_all add: send_data_loc_ok)

lemma glyph_loop_frame [simp]:
  "cursorLoc (foldl (\<lambda>s' i. con_send_byte (glyph ! i) 1 s') s is) = cursorLoc s"
  "displayState (foldl (\<lambda>s' i. con_send_byte (glyph ! i) 1 s') s is) = displayState s"
  "cursorMovement (foldl (\<lambda>s' i. con_send_byte (glyph ! i) 1 s') s is) = cursorMovement s"
  "backlightMask (con (foldl (\<lambda>s' i. con_send_byte (glyph ! i) 1 s') s is)) = backlightMask (con s)"
  by (induction "is" arbitrary: s; simp)+

lemma create_custom_char_backlight [simp]:
  "backlightMask (con (create_custom_char loc glyph s)) = backlightMask (con s)"
  by (simp add: create_custom_char_def Let_def)

lemma create_custom_char_loc_ok:
  "loc_ok (cursorLoc s) \<Longrightarrow> loc_ok (cursorLoc (create_custom_char loc glyph s))"
  by (simp add: create_custom_char_def Let_def set_cursor_pos_loc_ok)

lemma nibble_pow_frame [simp]:
  "cursorLoc ((con_send_nibble n d ^^ k) s) = cursorLoc s"
  "displayState ((con_send_nibble n d ^^ k) s) = displayState s"
  "cursorMovement ((con_send_nibble n d ^^ k) s) = cursorMovement s"
  "backlightMask (con ((con_send_nibble n d ^^ k) s)) = backlightMask (con s)"
  by (induction k; simp)+

lemma initialize_frame [simp]:
  "cursorLoc (initialize s) = cursorLoc s"
  "backlightMask (con (initialize s)) = backlightMask (con s)"
  by (simp_all add: initialize_def Let_def)

lemma putc_loc_ok: "loc_ok (cursorLoc s) \<Longrightarrow> loc_ok (cursorLoc (snd (putc c s)))"
  by (simp add: putc_def Let_def set_cursor_pos_loc_ok send_data_loc_ok)

lemma putc_backlight [simp]: "backlightMask (con (snd (putc c s))) = backlightMask (con s)"
  by (simp add: putc_def Let_def)

lemma backlight_ops_ok:
  "bl_ok (backlightMask (con (enable_backlight s)))"
  "bl_ok (backlightMask (con s)) \<Longrightarrow> bl_ok (backlightMask (con (disable_backlight s)))"
  "bl_ok (backlightMask (con s)) \<Longrightarrow> bl_ok (backlightMask (con (toggle_backlight s)))"
  by (auto simp add: bl_ok_def enable_backlight_def disable_backlight_def toggle_backlight_def
      con_enable_backlight_def con_disable_backlight_def con_toggle_backlight_def
      i2c_write_def Let_def)

lemma backlight_ops_loc [simp]:
  "cursorLoc (enable_backlight s) = cursorLoc s"
  "cursorLoc (disable_backlight s) = cursorLoc s"
  "cursorLoc (toggle_backlight s) = cursorLoc s"
  by (simp_all add: enable_backlight_def disable_backlight_def toggle_backlight_def)

lemmas simple_method_defs =
  set_cursor_auto_dec_def set_cursor_auto_inc_def set_display_auto_dec_def
  set_display_auto_inc_def push_entry_mode_def push_display_state_def clear_display_def
  enable_display_def disable_display_def toggle_display_def set_cursor_home_def
  enable_cursor_display_def disable_cursor_display_def toggle_cursor_display_def
  enable_blinking_cursor_def disable_blinking_cursor_def toggle_blinking_cursor_def
  scroll_display_left_def scroll_display_right_def get_stream_def getc_def

lemma loc_ok_origin: "loc_ok 0"
  by (simp add: loc_ok_def)

lemma invoke_loc_ok:
  "loc_ok (cursorLoc s) \<Longrightarrow> loc_ok (cursorLoc (snd (invoke c s)))"
  by (cases c)
     (simp_all add: simple_method_defs send_data_loc_ok send_buffer_loc_ok
        create_custom_char_loc_ok set_cursor_pos_loc_ok putc_loc_ok inc_loc_ok dec_loc_ok
        move_cursor_left_def move_cursor_right_def loc_ok_origin case_prod_beta)

lemma invoke_bl_ok:
  "bl_ok (backlightMask (con s)) \<Longrightarrow> bl_ok (backlightMask (con (snd (invoke c s))))"
  by (cases c)
     (simp_all add: simple_method_defs backlight_ops_ok
        move_cursor_left_def move_cursor_right_def case_prod_beta)

lemma reachable_loc_ok: "reachable s \<Longrightarrow> loc_ok (cursorLoc s)"
  by (induction rule: reachable.induct)
     (simp_all add: invoke_loc_ok HD44780LCD_new_def loc_ok_origin)

lemma reachable_bl_ok: "reachable s \<Longrightarrow> bl_ok (backlightMask (con s))"
  by (induction rule: reachable.induct)
     (simp_all add: invoke_bl_ok, simp add: HD44780LCD_new_def I2CInterface_new_def bl_ok_def)

lemma run_reachable: "reachable s \<Longrightarrow> list_all wf_call cs \<Longrightarrow> reachable (run cs s)"
  by (induction cs arbitrary: s) (simp_all add: reachable.called)


lemma promote16_inj:
  assumes "promote16 x = promote16 y"
  shows "x = y"
proof (rule bit_word_eqI)
  fix n assume n: "n < LENGTH(16)"
  from assms have "bit (promote16 x) n = bit (promote16 y) n" by simp
  with n show "bit x n = bit y n" by (simp add: bit_simps)
qed

lemma promote16_eq_iff: "promote16 x = promote16 y \<longleftrightarrow> x = y"
  using promote16_inj by auto

lemma promote16_numerals:
  "promote16 x = 0 \<longleftrightarrow> x = 0"
  "promote16 x = 1 \<longleftrightarrow> x = 1"
  "promote16 x = 2 \<longleftrightarrow> x = 2"
  "promote16 x = 3 \<longleftrightarrow> x = 3"
  using promote16_eq_iff [of x 0] promote16_eq_iff [of x 1]
    promote16_eq_iff [of x 2] promote16_eq_iff [of x 3]
  by simp_all

section \<open>The orbit of the cursor increment\<close>

lemma inc_cursor_loc_plain:
  "a < 0x27 \<or> (0x40 \<le> a \<and> a < 0x67) \<Longrightarrow>
     inc_cursor_loc (s\<lparr>cursorLoc := a\<rparr>) = s\<lparr>cursorLoc := a + 1\<rparr>"
  by (auto simp add: inc_cursor_loc_def Let_def word_le_nat_alt word_less_nat_alt unat_word_ariths)

lemma inc_cursor_loc_wraps:
  "inc_cursor_loc (s\<lparr>cursorLoc := 0x27\<rparr>) = s\<lparr>cursorLoc := 0x40\<rparr>"
  "inc_cursor_loc (s\<lparr>cursorLoc := 0x67\<rparr>) = s\<lparr>cursorLoc := 0x00\<rparr>"
  by (simp_all add: inc_cursor_loc_def Let_def)

lemma inc_pow_row0:
  "k \<le> 39 \<Longrightarrow> (inc_cursor_loc ^^ k) (s\<lparr>cursorLoc := 0\<rparr>) = s\<lparr>cursorLoc := of_nat k\<rparr>"
proof (induction k)
  case 0
  then show ?case by simp
next
  case (Suc k)
  then have "k < 39" by simp
  then have "(of_nat k :: uint32_t) < 0x27"
    by (simp add: word_less_nat_alt unat_of_nat)
  with Suc show ?case
    by (simp add: inc_cursor_loc_plain)
qed

lemma inc_pow_row1:
  "k \<le> 39 \<Longrightarrow>
     (inc_cursor_loc ^^ k) (s\<lparr>cursorLoc := 0x40\<rparr>) = s\<lparr>cursorLoc := 0x40 + of_nat k\<rparr>"
proof (induction k)
  case 0
  then show ?case by simp
next
  case (Suc k)
  then have "k < 39" by simp
  then have "(0x40 :: uint32_t) \<le> 0x40 + of_nat k \<and> (0x40 + of_nat k :: uint32_t) < 0x67"
    by (simp add: word_le_nat_alt word_less_nat_alt unat_word_ariths unat_of_nat)
  with Suc show ?case
    by (simp add: inc_cursor_loc_plain add.assoc)
qed

lemma inc_pow_40: "(inc_cursor_loc ^^ 40) (s\<lparr>cursorLoc := 0\<rparr>) = s\<lparr>cursorLoc := 0x40\<rparr>"
proof -
  have "(inc_cursor_loc ^^ 40) (s\<lparr>cursorLoc := 0\<rparr>)
          = inc_cursor_loc ((inc_cursor_loc ^^ 39) (s\<lparr>cursorLoc := 0\<rparr>))"
    by (simp add: eval_nat_numeral)
  then show ?thesis
    by (simp add: inc_pow_row0 inc_cursor_loc_wraps)
qed

lemma inc_pow_40_row1: "(inc_cursor_loc ^^ 40) (s\<lparr>cursorLoc := 0x40\<rparr>) = s\<lparr>cursorLoc := 0\<rparr>"
proof -
  have "(inc_cursor_loc ^^ 40) (s\<lparr>cursorLoc := 0x40\<rparr>)
          = inc_cursor_loc ((inc_cursor_loc ^^ 39) (s\<lparr>cursorLoc := 0x40\<rparr>))"
    by (simp add: eval_nat_numeral)
  then show ?thesis
    by (simp add: inc_pow_row1 inc_cursor_loc_wraps)
qed

lemma inc_pow_second_half:
  "k \<le> 39 \<Longrightarrow>
     (inc_cursor_loc ^^ (40 + k)) (s\<lparr>cursorLoc := 0\<rparr>) = s\<lparr>cursorLoc := 0x40 + of_nat k\<rparr>"
proof -
  assume k: "k \<le> 39"
  have "(inc_cursor_loc ^^ (40 + k)) (s\<lparr>cursorLoc := 0\<rparr>)
          = (inc_cursor_loc ^^ k) ((inc_cursor_loc ^^ 40) (s\<lparr>cursorLoc := 0\<rparr>))"
    by (simp add: funpow_add add.commute)
  with k show ?thesis
    by (simp add: inc_pow_40 inc_pow_row1)
qed

lemma inc_pow_80: "(inc_cursor_loc ^^ 80) (s\<lparr>cursorLoc := 0\<rparr>) = s\<lparr>cursorLoc := 0\<rparr>"
proof -
  have "(inc_cursor_loc ^^ 80) (s\<lparr>cursorLoc := 0\<rparr>)
          = (inc_cursor_loc ^^ 40) ((inc_cursor_loc ^^ 40) (s\<lparr>cursorLoc := 0\<rparr>))"
    using funpow_add [of 40 40 inc_cursor_loc] by simp
  then show ?thesis
    by (simp add: inc_pow_40 inc_pow_40_row1)
qed

lemma orbit_nth:
  assumes "i < 80"
  shows "cursorLoc ((inc_cursor_loc ^^ i) (s\<lparr>cursorLoc := 0\<rparr>))
           = of_nat (if i < 40 then i else 64 + (i - 40))"
proof (cases "i < 40")
  case True
  then show ?thesis by (simp add: inc_pow_row0)
next
  case False
  with assms have "i - 40 \<le> 39" and "i = 40 + (i - 40)" by simp_all
  then show ?thesis
    using inc_pow_second_half [of "i - 40" s] False by simp
qed

lemma orbit_list:
  "map (\<lambda>k. cursorLoc ((inc_cursor_loc ^^ k) (s\<lparr>cursorLoc := 0\<rparr>))) [0..<80]
     = map of_nat ([0..<40] @ [64..<104])"
  by (simp del: upt_rec_numeral add: list_eq_iff_nth_eq nth_append orbit_nth)

lemma of_nat_inj_small: "inj_on (of_nat :: nat \<Rightarrow> uint32_t) {..<104}"
proof (rule inj_onI)
  fix x y :: nat
  assume x: "x \<in> {..<104}" and y: "y \<in> {..<104}"
    and eq: "(of_nat x :: uint32_t) = of_nat y"
  from x have ux: "unat (of_nat x :: uint32_t) = x"
    by (simp add: unat_of_nat)
  from y have uy: "unat (of_nat y :: uint32_t) = y"
    by (simp add: unat_of_nat)
  from eq have "unat (of_nat x :: uint32_t) = unat (of_nat y :: uint32_t)"
    by (rule arg_cong)
  then show "x = y" unfolding ux uy .
qed

lemma distinct_orbit: "distinct (map (of_nat :: nat \<Rightarrow> uint32_t) ([0..<40] @ [64..<104]))"
proof -
  have "distinct ([0..<40] @ [64..<104 :: nat])"
    by (simp del: upt_rec_numeral)
  moreover have "set ([0..<40] @ [64..<104 :: nat]) \<subseteq> {..<104}"
    by (auto simp del: upt_rec_numeral)
  ultimately show ?thesis
    using of_nat_inj_small by (simp only: distinct_map) (blast intro: inj_on_subset)
qed

section \<open>Loading a glyph\<close>

lemma glyph_loop_wire:
  "wire (con (foldl (\<lambda>s' i. con_send_byte (glyph ! i) 1 s') s is))
     = wire (con s) @ concat (map (\<lambda>i. byte_frames (glyph ! i) 1 (backlightMask (con s))) is)"
  by (induction "is" arbitrary: s) simp_all

lemma set_cursor_pos_restore:
  assumes "loc_ok (cursorLoc s)"
  shows "set_cursor_pos (get_cursor_row s) (get_cursor_col s) s = update_display_cursor_pos s"
proof (cases "cursorLoc s \<ge> 0x40")
  case True
  with assms have "cursorLoc s - 0x40 \<le> 0x28"
    by (simp add: loc_ok_def word_le_nat_alt unat_sub_if')
  with True show ?thesis
    by (simp add: set_cursor_pos_def get_cursor_row_def get_cursor_col_def)
next
  case False
  with assms have "cursorLoc s \<le> 0x28"
    by (auto simp add: loc_ok_def)
  with False show ?thesis
    by (simp add: set_cursor_pos_def get_cursor_row_def get_cursor_col_def)
qed

lemma row_col_address:
  "(if get_cursor_row s = 1 then 0x40 else 0x00) + get_cursor_col s = cursorLoc s"
  by (simp add: get_cursor_row_def get_cursor_col_def)

lemma ddram_byte:
  "(ucast (promote8 LCD_SET_DDRAMADDR OR a) :: uint8_t) = LCD_SET_DDRAMADDR OR ucast a"
  by (simp add: word8_eq_iff bit_simps)

lemmas frame_defs =
  byte_frames_def nibble_frames_def pack_buf_def pack_result_def HI_NIBBLE_def LO_NIBBLE_def

section \<open>Increment and decrement on the addresses of the two rows\<close>

lemma unat_pins_address:
  "unat (a :: uint32_t) = 39 \<longleftrightarrow> a = 39"
  "unat (a :: uint32_t) = 103 \<longleftrightarrow> a = 103"
  using word_unat_eq_iff [of a 39] word_unat_eq_iff [of a 103] by simp_all

lemma succ_not_origin:
  assumes "unat (a :: uint32_t) < 104"
  shows "a + 1 \<noteq> 0"
proof
  assume "a + 1 = 0"
  then have "unat (a + 1) = 0" by simp
  with assms show False by (simp add: unat_word_ariths)
qed

lemma dec_inc_inverse:
  assumes "in_row0 (cursorLoc s) \<or> in_row1 (cursorLoc s)"
  shows "dec_cursor_loc (inc_cursor_loc s) = s"
proof -
  from assms have small: "unat (cursorLoc s) < 104"
    by (auto simp add: in_row0_def in_row1_def word_less_nat_alt)
  have pin: "unat (cursorLoc s) < 40 \<Longrightarrow> 39 \<le> unat (cursorLoc s) \<Longrightarrow> cursorLoc s = 39"
    "unat (cursorLoc s) < 104 \<Longrightarrow> 103 \<le> unat (cursorLoc s) \<Longrightarrow> cursorLoc s = 103"
    using unat_pins_address [of "cursorLoc s"] by auto
  from assms succ_not_origin [OF small] show ?thesis
    by (auto simp add: in_row0_def in_row1_def inc_cursor_loc_def dec_cursor_loc_def Let_def
       word_le_nat_alt word_less_nat_alt unat_word_ariths dest: pin)
qed

lemma reachable_address:
  assumes "reachable s"
  shows "in_row0 (cursorLoc s) \<or> in_row1 (cursorLoc s)
         \<or> cursorLoc s = 0x28 \<or> cursorLoc s = 0x68"
  using reachable_loc_ok [OF assms]
  by (auto simp add: loc_ok_def in_row0_def in_row1_def word_le_nat_alt word_less_nat_alt
        word_unat_eq_iff)

section \<open>The claims\<close>

text \<open>
  C3. For row 0 or 1 and a column below 40, \<open>set_cursor_pos(row, col)\<close> followed by
  \<open>get_cursor_row()\<close> and \<open>get_cursor_col()\<close> returns the row and the column, and the
  stored address is the row's base (\<open>0x00\<close> or \<open>0x40\<close>) plus the column.
\<close>

theorem set_cursor_pos_roundtrip:
  assumes "r = 0 \<or> r = 1" and "c < 40"
  shows "get_cursor_row (set_cursor_pos r c s) = r
         \<and> get_cursor_col (set_cursor_pos r c s) = c
         \<and> cursorLoc (set_cursor_pos r c s) = (if r = 0 then 0x00 else 0x40) + c"
  using assms
  by (auto simp add: set_cursor_pos_def get_cursor_row_def get_cursor_col_def
       word_le_nat_alt word_less_nat_alt unat_word_ariths)

theorem set_cursor_pos_roundtrip_witness:
  "((1 :: uint32_t) = 0 \<or> (1 :: uint32_t) = 1) \<and> (5 :: uint32_t) < 40
   \<and> get_cursor_row (set_cursor_pos 1 5 HD44780LCD_new) = 1
   \<and> get_cursor_col (set_cursor_pos 1 5 HD44780LCD_new) = 5
   \<and> cursorLoc (set_cursor_pos 1 5 HD44780LCD_new) = 0x45"
  using set_cursor_pos_roundtrip [of 1 5 HD44780LCD_new]
  by simp

text \<open>
  C6. \<open>send_byte(byte, isData)\<close> writes exactly six bytes, one per bus write: the three
  phases of the high nibble and then the three phases of the low nibble.  Each phase byte
  carries the nibble in bits 7 to 4, the backlight bit in bit 3, the enable strobe in bit 2,
  0 in bit 1 and \<open>isData\<close> in bit 0; the strobe is low, high, low, and nothing else differs
  between the phases of a nibble.  The backlight mask is 0 or 8 in every state the driver
  reaches (\<open>reachable_bl_ok\<close>), and the driver passes 0 or 1 for \<open>isData\<close>.
\<close>

theorem send_byte_six_phases:
  assumes "backlightMask c = 0 \<or> backlightMask c = 8" and "isData = 0 \<or> isData = 1"
  shows "send_byte byte isData c =
           c\<lparr>wire := wire c @
             [spec_phase (drop_bit 4 byte) (backlightMask c \<noteq> 0) False (isData = 1),
              spec_phase (drop_bit 4 byte) (backlightMask c \<noteq> 0) True (isData = 1),
              spec_phase (drop_bit 4 byte) (backlightMask c \<noteq> 0) False (isData = 1),
              spec_phase (take_bit 4 byte) (backlightMask c \<noteq> 0) False (isData = 1),
              spec_phase (take_bit 4 byte) (backlightMask c \<noteq> 0) True (isData = 1),
              spec_phase (take_bit 4 byte) (backlightMask c \<noteq> 0) False (isData = 1)]\<rparr>"
  using assms by (simp add: send_byte_frames byte_frames_def pack_result_nibbles)

theorem send_byte_six_phases_witness:
  "(backlightMask (I2CInterface_new 0x4E) = 0 \<or> backlightMask (I2CInterface_new 0x4E) = 8)
   \<and> ((1 :: uint8_t) = 0 \<or> (1 :: uint8_t) = 1)
   \<and> send_byte 0xA5 1 (I2CInterface_new 0x4E) =
       (I2CInterface_new 0x4E)\<lparr>wire := [0xA1, 0xA5, 0xA1, 0x51, 0x55, 0x51]\<rparr>"
  using send_byte_six_phases [of "I2CInterface_new 0x4E" 1 "0xA5"]
  by (simp add: I2CInterface_new_def spec_phase_def)

text \<open>
  C7. After each entry-mode setter \<open>get_entry_mode()\<close> returns the mode the setter is
  named for, and for a stored mask that none of the four setters produces it returns
  \<open>CURSOR_INC\<close>.
\<close>

theorem entry_mode_roundtrip:
  "get_entry_mode (set_cursor_auto_inc s) = CURSOR_INC
   \<and> get_entry_mode (set_cursor_auto_dec s) = CURSOR_DEC
   \<and> get_entry_mode (set_display_auto_inc s) = DISPLAY_INC
   \<and> get_entry_mode (set_display_auto_dec s) = DISPLAY_DEC
   \<and> (cursorMovement s \<notin> {cursorMovement (set_cursor_auto_inc s),
                            cursorMovement (set_cursor_auto_dec s),
                            cursorMovement (set_display_auto_inc s),
                            cursorMovement (set_display_auto_dec s)}
        \<longrightarrow> get_entry_mode s = CURSOR_INC)"
  by (auto simp add: get_entry_mode_def simple_method_defs Let_def promote16_numerals)

theorem entry_mode_roundtrip_witness:
  "cursorMovement (HD44780LCD_new\<lparr>cursorMovement := 7\<rparr>)
     \<notin> {cursorMovement (set_cursor_auto_inc (HD44780LCD_new\<lparr>cursorMovement := 7\<rparr>)),
        cursorMovement (set_cursor_auto_dec (HD44780LCD_new\<lparr>cursorMovement := 7\<rparr>)),
        cursorMovement (set_display_auto_inc (HD44780LCD_new\<lparr>cursorMovement := 7\<rparr>)),
        cursorMovement (set_display_auto_dec (HD44780LCD_new\<lparr>cursorMovement := 7\<rparr>))}
   \<and> get_entry_mode (HD44780LCD_new\<lparr>cursorMovement := 7\<rparr>) = CURSOR_INC"
  using entry_mode_roundtrip [of "HD44780LCD_new\<lparr>cursorMovement := 7\<rparr>"]
  by (simp add: simple_method_defs)

text \<open>
  C9. The accessors \<open>get_cursor_row\<close>, \<open>get_cursor_col\<close>, \<open>is_backlight_on\<close>,
  \<open>is_display_enabled\<close>, \<open>is_cursor_displayed\<close>, \<open>is_blinking_cursor_displayed\<close> and
  \<open>get_entry_mode\<close> return the state they were called in: no byte is added to the wire and
  the cursor address, both masks and the backlight mask are as before.
\<close>

theorem accessors_frame:
  "snd (invoke Get_cursor_row s) = s \<and> snd (invoke Get_cursor_col s) = s
   \<and> snd (invoke Is_backlight_on s) = s \<and> snd (invoke Is_display_enabled s) = s
   \<and> snd (invoke Is_cursor_displayed s) = s \<and> snd (invoke Is_blinking_cursor_displayed s) = s
   \<and> snd (invoke Get_entry_mode s) = s"
  by simp

text \<open>
  C10. \<open>is_display_enabled()\<close> is true exactly when the whole display-control mask is
  nonzero: after \<open>enable_cursor_display()\<close> and then \<open>disable_display()\<close> it is true
  although the display-enable bit (bit 2) is clear.
\<close>

theorem is_display_enabled_whole_mask:
  "is_display_enabled s = (displayState s \<noteq> 0)
   \<and> is_display_enabled (disable_display (enable_cursor_display s))
   \<and> \<not> bit (displayState (disable_display (enable_cursor_display s))) 2"
proof -
  let ?s = "disable_display (enable_cursor_display s)"
  have cursor_bit: "bit (displayState ?s) 1"
    by (simp add: disable_display_def enable_cursor_display_def push_display_state_def bit_simps)
  have enable_bit: "\<not> bit (displayState ?s) 2"
    by (simp add: disable_display_def enable_cursor_display_def push_display_state_def bit_simps)
  from cursor_bit have "displayState ?s \<noteq> 0"
    by auto
  with enable_bit show ?thesis
    by (simp add: is_display_enabled_def)
qed

text \<open>
  C5. From address 0, position (0,0), forty increments give address \<open>0x40\<close>, position
  (1,0), and forty more give address 0 again.  The eighty addresses met on the way are
  0 to 39 and then 64 to 103, each once: the gap is never entered and the increment
  returns to the origin after exactly 80 steps, not before.
\<close>

theorem inc_cursor_loc_cycle:
  "get_cursor_row ((inc_cursor_loc ^^ 40) (s\<lparr>cursorLoc := 0\<rparr>)) = 1
   \<and> get_cursor_col ((inc_cursor_loc ^^ 40) (s\<lparr>cursorLoc := 0\<rparr>)) = 0
   \<and> cursorLoc ((inc_cursor_loc ^^ 40) (s\<lparr>cursorLoc := 0\<rparr>)) = 0x40
   \<and> (inc_cursor_loc ^^ 40) ((inc_cursor_loc ^^ 40) (s\<lparr>cursorLoc := 0\<rparr>)) = s\<lparr>cursorLoc := 0\<rparr>
   \<and> map (\<lambda>k. cursorLoc ((inc_cursor_loc ^^ k) (s\<lparr>cursorLoc := 0\<rparr>))) [0..<80]
       = map of_nat ([0..<40] @ [64..<104])
   \<and> distinct (map (\<lambda>k. cursorLoc ((inc_cursor_loc ^^ k) (s\<lparr>cursorLoc := 0\<rparr>))) [0..<80])"
  by (simp only: orbit_list distinct_orbit inc_pow_40 inc_pow_40_row1)
     (simp add: get_cursor_row_def get_cursor_col_def)

text \<open>
  C8. \<open>create_custom_char(3, pattern)\<close>, called in a state the public interface reaches
  with an 8-byte pattern, puts on the wire one instruction write of the CGRAM address
  select for address 24, then the 8 pattern bytes as data writes in order, then one
  instruction write of the DDRAM address select for the address of the row and column that
  were current before the call; the row and the column after the call are those before it.
\<close>

theorem create_custom_char_slot3:
  assumes "reachable s" and "length pattern = 8"
  shows "wire (con (create_custom_char 3 pattern s)) =
           wire (con s)
           @ byte_frames (LCD_SET_CGRAMADDR OR 24) 0 (backlightMask (con s))
           @ concat (map (\<lambda>b. byte_frames b 1 (backlightMask (con s))) pattern)
           @ byte_frames
               (LCD_SET_DDRAMADDR
                  OR ucast ((if get_cursor_row s = 1 then 0x40 else 0x00) + get_cursor_col s))
               0 (backlightMask (con s))
         \<and> get_cursor_row (create_custom_char 3 pattern s) = get_cursor_row s
         \<and> get_cursor_col (create_custom_char 3 pattern s) = get_cursor_col s"
proof -
  let ?s1 = "con_send_byte (ucast (promote8 LCD_SET_CGRAMADDR OR push_bit 3 (3 :: uint32_t))) 0 s"
  let ?s2 = "foldl (\<lambda>s' i. con_send_byte (pattern ! i) 1 s') ?s1 [0..<8]"
  have loc: "cursorLoc ?s2 = cursorLoc s" by simp
  from assms(1) have ok: "loc_ok (cursorLoc ?s2)"
    unfolding loc by (rule reachable_loc_ok)
  have rc: "get_cursor_row ?s2 = get_cursor_row s" "get_cursor_col ?s2 = get_cursor_col s"
    by (simp_all add: get_cursor_row_def get_cursor_col_def)
  have run: "create_custom_char 3 pattern s = update_display_cursor_pos ?s2"
    using set_cursor_pos_restore [OF ok] by (simp add: create_custom_char_def Let_def)
  have "map (\<lambda>i. byte_frames (pattern ! i) 1 (backlightMask (con s))) [0..<length pattern]
          = map (\<lambda>b. byte_frames b 1 (backlightMask (con s))) (map ((!) pattern) [0..<length pattern])"
    by (simp add: comp_def)
  then have "map (\<lambda>i. byte_frames (pattern ! i) 1 (backlightMask (con s))) [0..<length pattern]
          = map (\<lambda>b. byte_frames b 1 (backlightMask (con s))) pattern"
    by (simp only: map_nth)
  then have pat: "map (\<lambda>i. byte_frames (pattern ! i) 1 (backlightMask (con s))) [0..<8]
               = map (\<lambda>b. byte_frames b 1 (backlightMask (con s))) pattern"
    unfolding assms(2) .
  have wire2: "wire (con ?s2) =
                 wire (con s)
                 @ byte_frames (LCD_SET_CGRAMADDR OR 24) 0 (backlightMask (con s))
                 @ concat (map (\<lambda>b. byte_frames b 1 (backlightMask (con s))) pattern)"
    by (simp add: glyph_loop_wire pat del: upt_rec_numeral)
  have bl2: "backlightMask (con ?s2) = backlightMask (con s)"
    by simp
  have "wire (con (update_display_cursor_pos ?s2)) =
          wire (con ?s2)
          @ byte_frames (LCD_SET_DDRAMADDR OR ucast (cursorLoc s)) 0 (backlightMask (con s))"
    unfolding update_display_cursor_pos_def con_send_byte_simps ddram_byte loc bl2 ..
  moreover have "get_cursor_row (update_display_cursor_pos ?s2) = get_cursor_row s"
    and "get_cursor_col (update_display_cursor_pos ?s2) = get_cursor_col s"
    using loc by (simp_all add: get_cursor_row_def get_cursor_col_def)
  ultimately show ?thesis
    unfolding run wire2 row_col_address by simp
qed

theorem create_custom_char_slot3_witness:
  "reachable (snd (invoke (Set_cursor_pos 1 5) HD44780LCD_new))
   \<and> length [0x0E, 0x1B, 0x11, 0x11, 0x11, 0x11, 0x1F, 0x00 :: uint8_t] = 8
   \<and> drop 6 (wire (con (create_custom_char 3 [0x0E, 0x1B, 0x11, 0x11, 0x11, 0x11, 0x1F, 0x00]
                   (snd (invoke (Set_cursor_pos 1 5) HD44780LCD_new)))))
       = [0x50, 0x54, 0x50, 0x80, 0x84, 0x80,
          0x01, 0x05, 0x01, 0xE1, 0xE5, 0xE1,
          0x11, 0x15, 0x11, 0xB1, 0xB5, 0xB1,
          0x11, 0x15, 0x11, 0x11, 0x15, 0x11,
          0x11, 0x15, 0x11, 0x11, 0x15, 0x11,
          0x11, 0x15, 0x11, 0x11, 0x15, 0x11,
          0x11, 0x15, 0x11, 0x11, 0x15, 0x11,
          0x11, 0x15, 0x11, 0xF1, 0xF5, 0xF1,
          0x01, 0x05, 0x01, 0x01, 0x05, 0x01,
          0xC0, 0xC4, 0xC0, 0x50, 0x54, 0x50]
   \<and> get_cursor_row (create_custom_char 3 [0x0E, 0x1B, 0x11, 0x11, 0x11, 0x11, 0x1F, 0x00]
                   (snd (invoke (Set_cursor_pos 1 5) HD44780LCD_new))) = 1
   \<and> get_cursor_col (create_custom_char 3 [0x0E, 0x1B, 0x11, 0x11, 0x11, 0x11, 0x1F, 0x00]
                   (snd (invoke (Set_cursor_pos 1 5) HD44780LCD_new))) = 5"
proof -
  have r: "reachable (snd (invoke (Set_cursor_pos 1 5) HD44780LCD_new))"
    by (rule reachable.called [OF reachable.constructed]) simp
  have l: "length [0x0E, 0x1B, 0x11, 0x11, 0x11, 0x11, 0x1F, 0x00 :: uint8_t] = 8"
    by simp
  show ?thesis
    using r create_custom_char_slot3 [OF r l]
    by (simp add: set_cursor_pos_def update_display_cursor_pos_def get_cursor_row_def
          get_cursor_col_def HD44780LCD_new_def I2CInterface_new_def frame_defs)
qed

text \<open>
  C1. The cursor address is meant to stay inside row 0's range \<open>[0x00, 0x28)\<close> or row 1's
  range \<open>[0x40, 0x68)\<close>.  The guard of \<open>set_cursor_pos\<close> rejects a column only when it is
  greater than \<open>LCD_LINE_SIZE\<close>, so column 40 passes: on a newly constructed driver
  \<open>set_cursor_pos(0, 40)\<close> stores address \<open>0x28\<close>, which is in the gap and in neither row.
\<close>

theorem set_cursor_pos_reaches_gap:
  "reachable (run [Set_cursor_pos 0 40] HD44780LCD_new)
   \<and> cursorLoc (run [Set_cursor_pos 0 40] HD44780LCD_new) = 0x28
   \<and> in_gap (cursorLoc (run [Set_cursor_pos 0 40] HD44780LCD_new))
   \<and> \<not> in_row0 (cursorLoc (run [Set_cursor_pos 0 40] HD44780LCD_new))
   \<and> \<not> in_row1 (cursorLoc (run [Set_cursor_pos 0 40] HD44780LCD_new))"
proof -
  have "reachable (run [Set_cursor_pos 0 40] HD44780LCD_new)"
    by (rule run_reachable [OF reachable.constructed]) simp
  moreover have "cursorLoc (run [Set_cursor_pos 0 40] HD44780LCD_new) = 0x28"
    by (simp add: set_cursor_pos_def HD44780LCD_new_def)
  ultimately show ?thesis
    by (simp add: in_gap_def in_row0_def in_row1_def)
qed

text \<open>
  C2. A column beyond the 40 cells of a row (a column above 39) is meant to be rejected
  without any effect.  Column 40 is above 39, and \<open>set_cursor_pos(0, 40)\<close> on a newly
  constructed driver is not a no-op: the stored address changes from \<open>0x00\<close> to \<open>0x28\<close>
  and the six bytes of the instruction \<open>0xA8\<close> go onto the wire.  (For a row above 1 or a
  column above 40 the call does leave the state as it was: \<open>set_cursor_pos_rejects\<close>.)
\<close>

theorem set_cursor_pos_accepts_column_40:
  "(40 :: uint32_t) > 39
   \<and> cursorLoc HD44780LCD_new = 0x00
   \<and> wire (con HD44780LCD_new) = []
   \<and> cursorLoc (set_cursor_pos 0 40 HD44780LCD_new) = 0x28
   \<and> wire (con (set_cursor_pos 0 40 HD44780LCD_new)) = [0xA0, 0xA4, 0xA0, 0x80, 0x84, 0x80]"
  by (simp add: set_cursor_pos_def update_display_cursor_pos_def HD44780LCD_new_def
        I2CInterface_new_def frame_defs)

text \<open>
  C4. Decrement is meant to undo increment at every address the public interface reaches.
  Address \<open>0x28\<close> is reached by \<open>set_cursor_pos(0, 40)\<close>; there the increment jumps to
  \<open>0x40\<close> and the decrement goes back to \<open>0x27\<close>, not to \<open>0x28\<close>, and so do
  \<open>move_cursor_right\<close> followed by \<open>move_cursor_left\<close>.  (On the 80 addresses of the two
  rows the decrement does undo the increment: \<open>dec_inc_inverse\<close>.)
\<close>

theorem dec_after_inc_at_row_end:
  "reachable (run [Set_cursor_pos 0 40] HD44780LCD_new)
   \<and> cursorLoc (run [Set_cursor_pos 0 40] HD44780LCD_new) = 0x28
   \<and> cursorLoc (inc_cursor_loc (run [Set_cursor_pos 0 40] HD44780LCD_new)) = 0x40
   \<and> cursorLoc (dec_cursor_loc (inc_cursor_loc (run [Set_cursor_pos 0 40] HD44780LCD_new))) = 0x27
   \<and> cursorLoc (run [Set_cursor_pos 0 40, Move_cursor_right, Move_cursor_left] HD44780LCD_new)
       = 0x27"
proof -
  have "reachable (run [Set_cursor_pos 0 40] HD44780LCD_new)"
    by (rule run_reachable [OF reachable.constructed]) simp
  then show ?thesis
    by (simp add: set_cursor_pos_def HD44780LCD_new_def inc_cursor_loc_def dec_cursor_loc_def
          move_cursor_left_def move_cursor_right_def Let_def)
qed

end
